theory Spec2Isabelle
  imports Complex_Main "HOL-Library.Word"
begin

section \<open>Values crossing the boundary of \<open>DeepFilterNet3Processor.ts\<close>\<close>

text \<open>
  A JavaScript \<open>Error\<close> carries its message. Fetch and compile failures of the
  collaborators are errors as well.
\<close>

datatype error = Error string

text \<open>
  A JavaScript number. \<open>Math.floor\<close>, \<open>Math.min\<close> and \<open>Math.max\<close> are exact on
  doubles (the floor of a finite double is a double), so a finite number is modelled by
  the real it denotes; the three non-finite values are kept apart.
\<close>

datatype number = Num real | NaN | PosInfinity | NegInfinity

text \<open>
  What a caller can pass at run time where the signature says \<open>number\<close>; the source
  tests \<open>typeof level !== 'number'\<close> itself.
\<close>

datatype js_value = JNumber number | JString string | JBoolean bool | JUndefined | JNull

fun typeof_number :: "js_value \<Rightarrow> bool" where
  "typeof_number (JNumber _) = True"
| "typeof_number _ = False"

text \<open>\<open>isNaN\<close> on a number; the source calls it on nothing else (see \<open>setSuppressionLevel\<close>).\<close>

fun isNaN :: "number \<Rightarrow> bool" where
  "isNaN NaN = True"
| "isNaN _ = False"

fun Math_floor :: "number \<Rightarrow> number" where
  "Math_floor (Num r) = Num (of_int \<lfloor>r\<rfloor>)"
| "Math_floor x = x"

fun Math_min :: "number \<Rightarrow> number \<Rightarrow> number" where
  "Math_min NaN _ = NaN"
| "Math_min _ NaN = NaN"
| "Math_min NegInfinity _ = NegInfinity"
| "Math_min _ NegInfinity = NegInfinity"
| "Math_min PosInfinity y = y"
| "Math_min x PosInfinity = x"
| "Math_min (Num a) (Num b) = Num (min a b)"

fun Math_max :: "number \<Rightarrow> number \<Rightarrow> number" where
  "Math_max NaN _ = NaN"
| "Math_max _ NaN = NaN"
| "Math_max PosInfinity _ = PosInfinity"
| "Math_max _ PosInfinity = PosInfinity"
| "Math_max NegInfinity y = y"
| "Math_max x NegInfinity = x"
| "Math_max (Num a) (Num b) = Num (max a b)"

type_synonym bytes = "8 word list"

text \<open>The result of \<open>WebAssembly.compile\<close>: an opaque module object, known by its identity.\<close>

datatype WebAssembly_Module = Module nat

text \<open>
  Modelled from the spec: \<open>AssetConfig\<close> is declared in \<open>asset-loader/AssetLoader\<close>,
  a module of its own; the spec calls it an "optional override of base
  location and fetch options". The processor reads its \<open>cdnUrl\<close> field only.
\<close>

record AssetConfig =
  cdnUrl :: "string option"

text \<open>What \<open>loader.getAssetUrls()\<close> returns: the processor reads \<open>wasm\<close> and \<open>model\<close>.\<close>

record AssetUrls =
  wasm :: string
  model :: string

record ProcessorAssets =
  wasmModule :: WebAssembly_Module
  modelBytes :: bytes

text \<open>
  An \<open>AssetConfig\<close> is an object of the caller's: a configuration holds a reference to it,
  here the object's address in the world's store of such objects, and the caller can write
  to the object at any time.
\<close>

record DeepFilterNet3ProcessorConfig =
  sampleRate :: "number option"
  noiseReductionLevel :: "number option"
  assetConfig :: "nat option"

text \<open>The two control messages posted to the worklet's port (\<open>WorkletMessageTypes\<close>).\<close>

datatype WorkletMessage = SET_SUPPRESSION_LEVEL number | SET_BYPASS bool

record ProcessorOptions =
  opt_wasmModule :: WebAssembly_Module
  opt_modelBytes :: bytes
  suppressionLevel :: "number option"

text \<open>
  An \<open>AudioWorkletNode\<close> as the processor constructs it: the audio context, the
  processor name and the options handed to \<open>new AudioWorkletNode\<close>.
\<close>

record AudioWorkletNode =
  nodeContext :: nat
  processorName :: string
  processorOptions :: ProcessorOptions

section \<open>Promises and the state outside an instance\<close>

datatype 'a promise_state = Pending | Fulfilled 'a | Rejected error

text \<open>
  Everything an instance shares with the rest of the process: the two static fields of
  the class (\<open>preloadConfig\<close> holds a reference, as the configurations do), the
  \<open>AssetConfig\<close> objects by address, the promises created by \<open>preload\<close> (a promise is
  known by its index), the URLs handed to \<open>loader.fetchAsset\<close> in call order, the worklet nodes constructed so
  far (a node is known by its index), the messages posted to the nodes' ports and the
  nodes \<open>disconnect()\<close> was called on, both in call order.
\<close>

record world =
  preloadPromise :: "nat option"
  preloadConfig :: "nat option"
  assetConfigs :: "AssetConfig list"
  promises :: "ProcessorAssets promise_state list"
  fetchCalls :: "string list"
  nodes :: "AudioWorkletNode list"
  posted :: "(nat \<times> WorkletMessage) list"
  disconnected :: "nat list"

definition initial_world :: world where
  "initial_world =
     \<lparr>preloadPromise = None, preloadConfig = None, assetConfigs = [], promises = [],
      fetchCalls = [], nodes = [], posted = [], disconnected = []\<rparr>"

text \<open>
  Reading a reference: \<open>undefined\<close> stays \<open>undefined\<close>, an address gives the object as it
  is now. Addresses are handed out by \<open>new_AssetConfig\<close> only, so every address in use
  names an object; an address that names none reads as \<open>undefined\<close>.
\<close>

definition assetConfig_at :: "world \<Rightarrow> nat option \<Rightarrow> AssetConfig option" where
  "assetConfig_at w ref =
     (case ref of
        None \<Rightarrow> None
      | Some a \<Rightarrow> (if a < length (assetConfigs w) then Some (assetConfigs w ! a) else None))"

text \<open>The caller creates an \<open>AssetConfig\<close> object, or assigns to the \<open>cdnUrl\<close> of one.\<close>

definition new_AssetConfig :: "AssetConfig \<Rightarrow> world \<Rightarrow> world" where
  "new_AssetConfig c w = w\<lparr>assetConfigs := assetConfigs w @ [c]\<rparr>"

definition set_cdnUrl :: "nat \<Rightarrow> string option \<Rightarrow> world \<Rightarrow> world" where
  "set_cdnUrl a u w =
     (if a < length (assetConfigs w)
      then w\<lparr>assetConfigs := (assetConfigs w)[a := (assetConfigs w ! a)\<lparr>cdnUrl := u\<rparr>]\<rparr>
      else w)"

definition promise_state_of :: "world \<Rightarrow> nat \<Rightarrow> ProcessorAssets promise_state" where
  "promise_state_of w pid = (if pid < length (promises w) then promises w ! pid else Pending)"

text \<open>\<open>Promise.all\<close> of two promises: the first rejection in time wins.\<close>

definition Promise_all :: "bool \<Rightarrow> error + 'a \<Rightarrow> error + 'b \<Rightarrow> error + ('a \<times> 'b)" where
  "Promise_all secondSettlesFirst a b =
     (case a of
        Inr x \<Rightarrow> (case b of Inr y \<Rightarrow> Inr (x, y) | Inl e \<Rightarrow> Inl e)
      | Inl e1 \<Rightarrow> (case b of Inr _ \<Rightarrow> Inl e1
                   | Inl e2 \<Rightarrow> Inl (if secondSettlesFirst then e2 else e1)))"

text \<open>
  The body of the asynchronous function in \<open>preload\<close> after its two fetches were issued:
  await both, compile the executable, build the assets. The fetch results and the
  compiler belong to the environment.
\<close>

definition acquire_body ::
  "(bytes \<Rightarrow> error + WebAssembly_Module) \<Rightarrow> bool \<Rightarrow> error + bytes \<Rightarrow> error + bytes
     \<Rightarrow> error + ProcessorAssets" where
  "acquire_body compile secondSettlesFirst wasmResult modelResult =
     (case Promise_all secondSettlesFirst wasmResult modelResult of
        Inl e \<Rightarrow> Inl e
      | Inr (wasmBytes, mBytes) \<Rightarrow>
          (case compile wasmBytes of
             Inl e \<Rightarrow> Inl e
           | Inr m \<Rightarrow> Inr \<lparr>wasmModule = m, modelBytes = mBytes\<rparr>))"

text \<open>The environment settles a pending promise; a settled promise never changes.\<close>

definition settle :: "nat \<Rightarrow> error + ProcessorAssets \<Rightarrow> world \<Rightarrow> world" where
  "settle pid r w =
     (if pid < length (promises w) \<and> promises w ! pid = Pending
      then w\<lparr>promises := (promises w)[pid := (case r of Inl e \<Rightarrow> Rejected e | Inr a \<Rightarrow> Fulfilled a)]\<rparr>
      else w)"

section \<open>The processor\<close>

text \<open>
  The instance fields. The private field \<open>assetLoader\<close> is written by the constructor and
  never read, so it is left out. \<open>workletNode\<close> holds the index of the node in the world.
\<close>

record DeepFilterNet3Processor =
  assets :: "ProcessorAssets option"
  workletNode :: "nat option"
  isInitialized :: bool
  bypassEnabled :: bool
  config :: DeepFilterNet3ProcessorConfig

definition DEFAULT_CDN_URL :: string where
  "DEFAULT_CDN_URL = ''https://cdn.mezon.ai/AI/models/datas/noise_suppression/deepfilternet3''"

definition empty_config :: DeepFilterNet3ProcessorConfig where
  "empty_config = \<lparr>sampleRate = None, noiseReductionLevel = None, assetConfig = None\<rparr>"

text \<open>\<open>x ?? d\<close>\<close>

definition nullish :: "'a option \<Rightarrow> 'a \<Rightarrow> 'a" where
  "nullish x d = (case x of None \<Rightarrow> d | Some v \<Rightarrow> v)"

text \<open>The constructor; its parameter defaults to \<open>{}\<close>.\<close>

definition constructor :: "DeepFilterNet3ProcessorConfig option \<Rightarrow> DeepFilterNet3Processor" where
  "constructor arg =
     (let cfg = nullish arg empty_config in
      \<lparr>assets = None, workletNode = None, isInitialized = False, bypassEnabled = False,
       config = \<lparr>sampleRate = Some (nullish (sampleRate cfg) (Num 48000)),
                 noiseReductionLevel = Some (nullish (noiseReductionLevel cfg) (Num 50)),
                 assetConfig = assetConfig cfg\<rparr>\<rparr>)"

text \<open>
  \<open>c?.cdnUrl ?? DEFAULT\<close>: the effective base location of an asset configuration, from what
  the reference \<open>c\<close> reads as at the time of the call.
\<close>

definition effectiveCdnUrl :: "AssetConfig option \<Rightarrow> string" where
  "effectiveCdnUrl ac =
     nullish (case ac of None \<Rightarrow> None | Some c \<Rightarrow> cdnUrl c) DEFAULT_CDN_URL"

text \<open>
  \<open>preload\<close>. The loader comes from \<open>getAssetLoader\<close> of the asset-loader module, which is
  not modelled here: \<open>getAssetUrls\<close> stands for \<open>getAssetLoader(c).getAssetUrls()\<close>, a
  function of the asset configuration as it reads at the call. The result is the promise
  returned and the world after the call; the asynchronous function starts running at
  once, so both \<open>fetchAsset\<close> calls are made before \<open>preload\<close> returns. The stored promise
  is returned when there is one and the two locations are equal; otherwise both static
  fields are overwritten. \<open>preloadConfig\<close> receives the caller's reference, not a copy:
  \<open>cachedCdnUrl\<close> is read from the stored object as it is at each call.
\<close>

definition preload ::
  "(AssetConfig option \<Rightarrow> AssetUrls) \<Rightarrow> DeepFilterNet3ProcessorConfig option \<Rightarrow> world
     \<Rightarrow> nat \<times> world" where
  "preload getAssetUrls cfg w =
     (let targetAssetConfig = (case cfg of None \<Rightarrow> None | Some c \<Rightarrow> assetConfig c);
          assetUrls = getAssetUrls (assetConfig_at w targetAssetConfig);
          currentCdnUrl = effectiveCdnUrl (assetConfig_at w targetAssetConfig);
          cachedCdnUrl = effectiveCdnUrl (assetConfig_at w (preloadConfig w))
      in case (if currentCdnUrl = cachedCdnUrl then preloadPromise w else None) of
           Some p \<Rightarrow> (p, w)
         | None \<Rightarrow>
             (length (promises w),
              w\<lparr>preloadConfig := targetAssetConfig,
                preloadPromise := Some (length (promises w)),
                promises := promises w @ [Pending],
                fetchCalls := fetchCalls w @ [wasm assetUrls, model assetUrls]\<rparr>))"

text \<open>
  \<open>initialize\<close> suspends at its \<open>await\<close>. \<open>initialize_begin\<close> runs up to it and says which
  promise is awaited (none when the instance is initialized already);
  \<open>initialize_end\<close> resumes in a later world: \<open>None\<close> while the promise is pending,
  otherwise the error thrown or the instance after the two assignments.
\<close>

definition initialize_begin ::
  "(AssetConfig option \<Rightarrow> AssetUrls) \<Rightarrow> DeepFilterNet3Processor \<Rightarrow> world
     \<Rightarrow> nat option \<times> world" where
  "initialize_begin getAssetUrls this w =
     (if isInitialized this then (None, w)
      else (Some (fst (preload getAssetUrls (Some (config this)) w)),
            snd (preload getAssetUrls (Some (config this)) w)))"

definition initialize_end ::
  "DeepFilterNet3Processor \<Rightarrow> nat option \<Rightarrow> world \<Rightarrow> (error + DeepFilterNet3Processor) option" where
  "initialize_end this awaited w =
     (case awaited of
        None \<Rightarrow> Some (Inr this)
      | Some pid \<Rightarrow>
          (case promise_state_of w pid of
             Pending \<Rightarrow> None
           | Rejected e \<Rightarrow> Some (Inl e)
           | Fulfilled a \<Rightarrow> Some (Inr (this\<lparr>assets := Some a, isInitialized := True\<rparr>))))"

text \<open>
  \<open>create\<close>, in the same two halves: the instance under construction with the promise it
  awaits, and the outcome of the returned promise once that one has settled.
\<close>

definition create_begin ::
  "(AssetConfig option \<Rightarrow> AssetUrls) \<Rightarrow> DeepFilterNet3ProcessorConfig option \<Rightarrow> world
     \<Rightarrow> (DeepFilterNet3Processor \<times> nat option) \<times> world" where
  "create_begin getAssetUrls arg w =
     (let processor = constructor arg in
      ((processor, fst (initialize_begin getAssetUrls processor w)),
       snd (initialize_begin getAssetUrls processor w)))"

definition create_end ::
  "DeepFilterNet3Processor \<times> nat option \<Rightarrow> world \<Rightarrow> (error + DeepFilterNet3Processor) option" where
  "create_end pa w = initialize_end (fst pa) (snd pa) w"

definition NOT_INITIALIZED :: string where
  "NOT_INITIALIZED =
     ''Processor not initialized. Use DeepFilterNet3Processor.create() to instantiate.''"

definition ensureInitialized :: "DeepFilterNet3Processor \<Rightarrow> error + unit" where
  "ensureInitialized this = (if \<not> isInitialized this then Inl (Error NOT_INITIALIZED) else Inr ())"

text \<open>
  \<open>createAudioWorkletNode\<close>. \<open>createWorkletModule\<close> belongs to \<open>utils/workerUtils\<close>: the
  parameter says whether registering the module on the given context fails. The result is
  the node returned (or the error the returned promise is rejected with), the instance and
  the world afterwards. The call is taken as a whole: no other operation on the instance
  runs while it awaits the registration.
\<close>

definition createAudioWorkletNode ::
  "(nat \<Rightarrow> error option) \<Rightarrow> nat \<Rightarrow> DeepFilterNet3Processor \<Rightarrow> world
     \<Rightarrow> (error + nat) \<times> DeepFilterNet3Processor \<times> world" where
  "createAudioWorkletNode createWorkletModule audioContext this w =
     (case ensureInitialized this of
        Inl e \<Rightarrow> (Inl e, this, w)
      | Inr _ \<Rightarrow>
          (case assets this of
             None \<Rightarrow> (Inl (Error ''Assets not loaded''), this, w)
           | Some a \<Rightarrow>
               (case createWorkletModule audioContext of
                  Some e \<Rightarrow> (Inl e, this, w)
                | None \<Rightarrow>
                    (Inr (length (nodes w)),
                     this\<lparr>workletNode := Some (length (nodes w))\<rparr>,
                     w\<lparr>nodes := nodes w @
                         [\<lparr>nodeContext = audioContext,
                           processorName = ''deepfilter-audio-processor'',
                           processorOptions =
                             \<lparr>opt_wasmModule = wasmModule a, opt_modelBytes = modelBytes a,
                              suppressionLevel = noiseReductionLevel (config this)\<rparr>\<rparr>]\<rparr>))))"

text \<open>\<open>node.port.postMessage(m)\<close> and \<open>node.disconnect()\<close> on the node \<open>h\<close>.\<close>

definition postMessage :: "nat \<Rightarrow> WorkletMessage \<Rightarrow> world \<Rightarrow> world" where
  "postMessage h m w = w\<lparr>posted := posted w @ [(h, m)]\<rparr>"

definition disconnect :: "nat \<Rightarrow> world \<Rightarrow> world" where
  "disconnect h w = w\<lparr>disconnected := disconnected w @ [h]\<rparr>"

text \<open>
  \<open>setSuppressionLevel\<close>. The guard \<open>!this.workletNode || typeof level !== 'number' ||
  isNaN(level)\<close> is evaluated left to right and stops at the first true disjunct: without
  a handle nothing else is looked at, a value that is not a number returns before
  \<open>isNaN\<close> is called, and \<open>isNaN\<close> sees numbers only.
\<close>

definition setSuppressionLevel ::
  "js_value \<Rightarrow> DeepFilterNet3Processor \<Rightarrow> world \<Rightarrow> DeepFilterNet3Processor \<times> world" where
  "setSuppressionLevel level this w =
     (case workletNode this of
        None \<Rightarrow> (this, w)
      | Some h \<Rightarrow>
          (case level of
             JNumber n \<Rightarrow>
               (if isNaN n then (this, w)
                else (this,
                      postMessage h
                        (SET_SUPPRESSION_LEVEL
                           (Math_max (Num 0) (Math_min (Num 100) (Math_floor n)))) w))
           | _ \<Rightarrow> (this, w)))"

definition destroy :: "DeepFilterNet3Processor \<Rightarrow> world \<Rightarrow> DeepFilterNet3Processor \<times> world" where
  "destroy this w =
     (if \<not> isInitialized this then (this, w)
      else (this\<lparr>workletNode := None, assets := None, isInitialized := False\<rparr>,
            (case workletNode this of None \<Rightarrow> w | Some h \<Rightarrow> disconnect h w)))"

definition isReady :: "DeepFilterNet3Processor \<Rightarrow> bool" where
  "isReady this = (isInitialized this \<and> workletNode this \<noteq> None)"

definition setNoiseSuppressionEnabled ::
  "bool \<Rightarrow> DeepFilterNet3Processor \<Rightarrow> world \<Rightarrow> DeepFilterNet3Processor \<times> world" where
  "setNoiseSuppressionEnabled enabled this w =
     (case workletNode this of
        None \<Rightarrow> (this, w)
      | Some h \<Rightarrow> (this\<lparr>bypassEnabled := \<not> enabled\<rparr>, postMessage h (SET_BYPASS (\<not> enabled)) w))"

definition isNoiseSuppressionEnabled :: "DeepFilterNet3Processor \<Rightarrow> bool" where
  "isNoiseSuppressionEnabled this = (\<not> bypassEnabled this)"

section \<open>Callers of the two static entry points\<close>

text \<open>
  As far as the stored promise is concerned, a call is a call of \<open>preload\<close> or of \<open>create\<close>.
  \<open>issue\<close> makes one call and says which promise the caller holds or awaits. The
  location of a request and the location stored are what \<open>preload\<close> computes in the world
  the call is made in.
\<close>

datatype request =
  Preload "DeepFilterNet3ProcessorConfig option"
| Create "DeepFilterNet3ProcessorConfig option"

fun request_assetConfig :: "request \<Rightarrow> nat option" where
  "request_assetConfig (Preload cfg) = (case cfg of None \<Rightarrow> None | Some c \<Rightarrow> assetConfig c)"
| "request_assetConfig (Create arg) = assetConfig (nullish arg empty_config)"

definition request_location :: "world \<Rightarrow> request \<Rightarrow> string" where
  "request_location w r = effectiveCdnUrl (assetConfig_at w (request_assetConfig r))"

definition stored_location :: "world \<Rightarrow> string" where
  "stored_location w = effectiveCdnUrl (assetConfig_at w (preloadConfig w))"

fun issue ::
  "(AssetConfig option \<Rightarrow> AssetUrls) \<Rightarrow> request \<Rightarrow> world \<Rightarrow> nat option \<times> world" where
  "issue g (Preload cfg) w = (Some (fst (preload g cfg w)), snd (preload g cfg w))"
| "issue g (Create arg) w = (snd (fst (create_begin g arg w)), snd (create_begin g arg w))"

text \<open>
  What happens in a process between two moments, in order: the caller makes a call,
  creates an \<open>AssetConfig\<close> object or assigns to the \<open>cdnUrl\<close> of one, or a promise is
  settled. \<open>run\<close> lets the events happen and collects the promises the calls got.
\<close>

datatype event =
  Call request
| Alloc AssetConfig
| SetCdnUrl nat "string option"
| Settle nat "error + ProcessorAssets"

fun apply_event :: "(AssetConfig option \<Rightarrow> AssetUrls) \<Rightarrow> event \<Rightarrow> world \<Rightarrow> world" where
  "apply_event g (Call r) w = snd (issue g r w)"
| "apply_event g (Alloc c) w = new_AssetConfig c w"
| "apply_event g (SetCdnUrl a u) w = set_cdnUrl a u w"
| "apply_event g (Settle p x) w = settle p x w"

fun promise_got :: "(AssetConfig option \<Rightarrow> AssetUrls) \<Rightarrow> event \<Rightarrow> world \<Rightarrow> nat option list" where
  "promise_got g (Call r) w = [fst (issue g r w)]"
| "promise_got g _ w = []"

fun run ::
  "(AssetConfig option \<Rightarrow> AssetUrls) \<Rightarrow> event list \<Rightarrow> world \<Rightarrow> nat option list \<times> world" where
  "run g [] w = ([], w)"
| "run g (e # es) w =
     (promise_got g e w @ fst (run g es (apply_event g e w)), snd (run g es (apply_event g e w)))"

fun calls :: "event list \<Rightarrow> request list" where
  "calls [] = []"
| "calls (Call r # es) = r # calls es"
| "calls (_ # es) = calls es"

text \<open>
  The events keep the cache at the location \<open>L\<close>: every call is for \<open>L\<close>, and after every
  other event the stored configuration object still reads as \<open>L\<close>.
\<close>

fun keeps_location :: "event \<Rightarrow> string \<Rightarrow> world \<Rightarrow> world \<Rightarrow> bool" where
  "keeps_location (Call r) L w w' = (request_location w r = L)"
| "keeps_location _ L w w' = (stored_location w' = L)"

fun stays_at ::
  "(AssetConfig option \<Rightarrow> AssetUrls) \<Rightarrow> string \<Rightarrow> event list \<Rightarrow> world \<Rightarrow> bool" where
  "stays_at g L [] w = True"
| "stays_at g L (e # es) w =
     (keeps_location e L w (apply_event g e w) \<and> stays_at g L es (apply_event g e w))"

section \<open>A concrete environment\<close>

text \<open>
  For running the definitions on concrete inputs: a loader that appends the asset names to
  the effective base location, the configuration that refers to the \<open>AssetConfig\<close> object
  at a given address, and the assets a successful acquisition delivers.
\<close>

definition fixture_getAssetUrls :: "AssetConfig option \<Rightarrow> AssetUrls" where
  "fixture_getAssetUrls ac =
     \<lparr>wasm = effectiveCdnUrl ac @ ''/df.wasm'', model = effectiveCdnUrl ac @ ''/model.bin''\<rparr>"

definition config_with :: "nat \<Rightarrow> DeepFilterNet3ProcessorConfig" where
  "config_with a = \<lparr>sampleRate = None, noiseReductionLevel = None, assetConfig = Some a\<rparr>"

definition fixture_assets :: ProcessorAssets where
  "fixture_assets = \<lparr>wasmModule = Module 7, modelBytes = [1, 2, 3]\<rparr>"

text \<open>
  The instance and the world after \<open>create()\<close> with no argument in a fresh process, the
  acquisition succeeding, and \<open>createAudioWorkletNode\<close> on context 0 succeeding.
\<close>

definition created_world :: world where
  "created_world =
     settle 0 (Inr fixture_assets) (snd (create_begin fixture_getAssetUrls None initial_world))"

definition created_instance :: "(error + DeepFilterNet3Processor) option" where
  "created_instance =
     create_end (fst (create_begin fixture_getAssetUrls None initial_world)) created_world"

definition live_instance :: DeepFilterNet3Processor where
  "live_instance =
     \<lparr>assets = Some fixture_assets, workletNode = Some 0, isInitialized = True,
      bypassEnabled = False,
      config = \<lparr>sampleRate = Some (Num 48000), noiseReductionLevel = Some (Num 50),
                assetConfig = None\<rparr>\<rparr>"

text \<open>
  The instance after \<open>create({noiseReductionLevel: 250})\<close> in a fresh process, the
  acquisition succeeding.
\<close>

definition loud_instance :: DeepFilterNet3Processor where
  "loud_instance =
     \<lparr>assets = Some fixture_assets, workletNode = None, isInitialized = True,
      bypassEnabled = False,
      config = \<lparr>sampleRate = Some (Num 48000), noiseReductionLevel = Some (Num 250),
                assetConfig = None\<rparr>\<rparr>"

definition live_world :: world where
  "live_world =
     created_world\<lparr>nodes :=
       [\<lparr>nodeContext = 0, processorName = ''deepfilter-audio-processor'',
         processorOptions =
           \<lparr>opt_wasmModule = Module 7, opt_modelBytes = [1, 2, 3],
            suppressionLevel = Some (Num 50)\<rparr>\<rparr>]\<rparr>"

section \<open>Auxiliary facts\<close>

lemma assetConfig_at_same:
  "assetConfigs w' = assetConfigs w \<Longrightarrow> assetConfig_at w' ref = assetConfig_at w ref"
  by (simp add: assetConfig_at_def split: option.splits)

lemma preload_hit:
  assumes "preloadPromise w = Some p"
    and "effectiveCdnUrl (assetConfig_at w (case cfg of None \<Rightarrow> None | Some c \<Rightarrow> assetConfig c)) =
         stored_location w"
  shows "preload g cfg w = (p, w)"
  using assms by (simp add: preload_def Let_def stored_location_def)

lemma preload_miss:
  assumes "preloadPromise w = None \<or>
    effectiveCdnUrl (assetConfig_at w (case cfg of None \<Rightarrow> None | Some c \<Rightarrow> assetConfig c)) \<noteq>
      stored_location w"
  shows "preload g cfg w =
    (length (promises w),
     w\<lparr>preloadConfig := (case cfg of None \<Rightarrow> None | Some c \<Rightarrow> assetConfig c),
       preloadPromise := Some (length (promises w)),
       promises := promises w @ [Pending],
       fetchCalls := fetchCalls w @
         [wasm (g (assetConfig_at w (case cfg of None \<Rightarrow> None | Some c \<Rightarrow> assetConfig c))),
          model (g (assetConfig_at w (case cfg of None \<Rightarrow> None | Some c \<Rightarrow> assetConfig c)))]\<rparr>)"
  using assms by (auto simp add: preload_def Let_def stored_location_def)

lemma constructor_fields:
  "assets (constructor arg) = None"
  "workletNode (constructor arg) = None"
  "isInitialized (constructor arg) = False"
  "bypassEnabled (constructor arg) = False"
  "assetConfig (config (constructor arg)) = assetConfig (nullish arg empty_config)"
  by (simp_all add: constructor_def Let_def)

lemma issue_as_preload:
  "issue g r w =
     (Some (fst (preload g (Some (empty_config\<lparr>assetConfig := request_assetConfig r\<rparr>)) w)),
      snd (preload g (Some (empty_config\<lparr>assetConfig := request_assetConfig r\<rparr>)) w))"
  by (cases r)
     (simp_all add: create_begin_def initialize_begin_def constructor_fields Let_def preload_def
        split: option.splits)

lemma issue_hit:
  assumes "preloadPromise w = Some p" and "request_location w r = stored_location w"
  shows "issue g r w = (Some p, w)"
  using assms by (simp add: issue_as_preload preload_hit request_location_def)

lemma issue_miss:
  assumes "preloadPromise w = None \<or> request_location w r \<noteq> stored_location w"
  shows "issue g r w =
    (Some (length (promises w)),
     w\<lparr>preloadConfig := request_assetConfig r,
       preloadPromise := Some (length (promises w)),
       promises := promises w @ [Pending],
       fetchCalls := fetchCalls w @
         [wasm (g (assetConfig_at w (request_assetConfig r))),
          model (g (assetConfig_at w (request_assetConfig r)))]\<rparr>)"
proof -
  have "preloadPromise w = None \<or>
    effectiveCdnUrl (assetConfig_at w
      (case Some (empty_config\<lparr>assetConfig := request_assetConfig r\<rparr>) of
         None \<Rightarrow> None | Some c \<Rightarrow> assetConfig c)) \<noteq> stored_location w"
    using assms by (simp add: request_location_def)
  from preload_miss [OF this, of g] show ?thesis
    by (simp add: issue_as_preload)
qed

lemma issue_cases:
  obtains (hit) p where "preloadPromise w = Some p" "request_location w r = stored_location w"
    | (miss) "preloadPromise w = None \<or> request_location w r \<noteq> stored_location w"
  by (cases "preloadPromise w") auto

lemma issue_stores:
  "preloadPromise (snd (issue g r w)) = fst (issue g r w)"
  "stored_location (snd (issue g r w)) = request_location w r"
  "assetConfigs (snd (issue g r w)) = assetConfigs w"
proof -
  have "preloadPromise (snd (issue g r w)) = fst (issue g r w) \<and>
    stored_location (snd (issue g r w)) = request_location w r \<and>
    assetConfigs (snd (issue g r w)) = assetConfigs w"
  proof (cases rule: issue_cases [of w r])
    case (hit p)
    then show ?thesis by (simp add: issue_hit del: issue.simps)
  next
    case miss
    note m = issue_miss [OF miss, of g]
    have h: "assetConfigs (snd (issue g r w)) = assetConfigs w"
      by (simp add: m del: issue.simps)
    have "stored_location (snd (issue g r w)) =
        effectiveCdnUrl (assetConfig_at (snd (issue g r w)) (request_assetConfig r))"
      by (simp add: m stored_location_def del: issue.simps)
    then have "stored_location (snd (issue g r w)) = request_location w r"
      by (simp add: assetConfig_at_same [OF h] request_location_def del: issue.simps)
    with h show ?thesis
      by (simp add: m del: issue.simps)
  qed
  then show "preloadPromise (snd (issue g r w)) = fst (issue g r w)"
    and "stored_location (snd (issue g r w)) = request_location w r"
    and "assetConfigs (snd (issue g r w)) = assetConfigs w"
    by simp_all
qed

lemma request_location_after_issue:
  "request_location (snd (issue g r w)) r' = request_location w r'"
  by (simp add: request_location_def assetConfig_at_same [OF issue_stores(3)] del: issue.simps)

lemma issue_returns_promise: "\<exists>p. fst (issue g r w) = Some p"
  by (simp add: issue_as_preload)

lemma create_begin_eq:
  "create_begin g arg w = ((constructor arg, fst (issue g (Create arg) w)), snd (issue g (Create arg) w))"
  by (simp add: create_begin_def Let_def)

text \<open>A settled promise stays as it is, whatever happens.\<close>

lemma settle_keeps:
  "preloadPromise (settle q x w) = preloadPromise w"
  "preloadConfig (settle q x w) = preloadConfig w"
  "assetConfigs (settle q x w) = assetConfigs w"
  "fetchCalls (settle q x w) = fetchCalls w"
  "length (promises (settle q x w)) = length (promises w)"
  by (simp_all add: settle_def)


lemma caller_writes_keep:
  "preloadPromise (new_AssetConfig c w) = preloadPromise w"
  "preloadConfig (new_AssetConfig c w) = preloadConfig w"
  "promises (new_AssetConfig c w) = promises w"
  "fetchCalls (new_AssetConfig c w) = fetchCalls w"
  "preloadPromise (set_cdnUrl a u w) = preloadPromise w"
  "preloadConfig (set_cdnUrl a u w) = preloadConfig w"
  "promises (set_cdnUrl a u w) = promises w"
  "fetchCalls (set_cdnUrl a u w) = fetchCalls w"
  by (simp_all add: new_AssetConfig_def set_cdnUrl_def)


text \<open>
  While the events keep the cache at the stored location, every call gets the stored
  promise, and neither the stored promise nor the fetches made nor the number of promises
  change.
\<close>

lemma apply_event_stays:
  assumes "preloadPromise w = Some p" and "stored_location w = L"
    and "keeps_location ev L w (apply_event g ev w)"
  shows "promise_got g ev w = map (\<lambda>_. Some p) (calls [ev])
    \<and> preloadPromise (apply_event g ev w) = Some p
    \<and> stored_location (apply_event g ev w) = L
    \<and> fetchCalls (apply_event g ev w) = fetchCalls w
    \<and> length (promises (apply_event g ev w)) = length (promises w)"
proof (cases ev)
  case (Call r)
  with assms have "request_location w r = stored_location w" by simp
  from issue_hit [OF assms(1) this, of g] Call assms show ?thesis
    by (simp del: issue.simps)
next
  case (Alloc c)
  with assms show ?thesis by (simp add: caller_writes_keep)
next
  case (SetCdnUrl a u)
  with assms show ?thesis by (simp add: caller_writes_keep)
next
  case (Settle q x)
  with assms show ?thesis by (simp add: settle_keeps)
qed

lemma calls_Cons: "calls (ev # es) = calls [ev] @ calls es"
  by (cases ev) simp_all

lemma run_stays:
  assumes "preloadPromise w = Some p" and "stored_location w = L" and "stays_at g L es w"
  shows "fst (run g es w) = map (\<lambda>_. Some p) (calls es)
    \<and> preloadPromise (snd (run g es w)) = Some p
    \<and> stored_location (snd (run g es w)) = L
    \<and> fetchCalls (snd (run g es w)) = fetchCalls w
    \<and> length (promises (snd (run g es w))) = length (promises w)"
  using assms
proof (induction es arbitrary: w)
  case Nil
  then show ?case by simp
next
  case (Cons ev es)
  from Cons.prems have k: "keeps_location ev L w (apply_event g ev w)"
    and s: "stays_at g L es (apply_event g ev w)"
    by simp_all
  note st = apply_event_stays [OF Cons.prems(1,2) k]
  from st have 1: "preloadPromise (apply_event g ev w) = Some p"
    and 2: "stored_location (apply_event g ev w) = L"
    by blast+
  note ih = Cons.IH [OF 1 2 s]
  from st ih show ?case
    by (simp add: calls_Cons [of ev es] del: calls.simps apply_event.simps promise_got.simps)
qed


lemma live_instance_created:
  "created_instance = Some (Inr (live_instance\<lparr>workletNode := None\<rparr>))"
  by (simp add: created_instance_def created_world_def create_end_def create_begin_def
      initialize_begin_def initialize_end_def preload_def constructor_def nullish_def
      empty_config_def initial_world_def settle_def promise_state_of_def effectiveCdnUrl_def
      live_instance_def Let_def)

lemma live_instance_handle:
  "createAudioWorkletNode (\<lambda>_. None) 0 (live_instance\<lparr>workletNode := None\<rparr>) created_world =
     (Inr 0, live_instance, live_world)"
  by (simp add: createAudioWorkletNode_def ensureInitialized_def live_instance_def live_world_def
      created_world_def create_begin_def initialize_begin_def preload_def constructor_def
      nullish_def empty_config_def initial_world_def settle_def fixture_assets_def Let_def
      effectiveCdnUrl_def)

lemma loud_instance_created:
  "create_begin fixture_getAssetUrls (Some (empty_config\<lparr>noiseReductionLevel := Some (Num 250)\<rparr>))
     initial_world =
     ((constructor (Some (empty_config\<lparr>noiseReductionLevel := Some (Num 250)\<rparr>)), Some 0),
      snd (create_begin fixture_getAssetUrls None initial_world))"
  "create_end
     (constructor (Some (empty_config\<lparr>noiseReductionLevel := Some (Num 250)\<rparr>)), Some 0)
     created_world = Some (Inr loud_instance)"
  by (simp_all add: created_world_def create_end_def create_begin_def
      initialize_begin_def initialize_end_def preload_def constructor_def nullish_def
      empty_config_def initial_world_def settle_def promise_state_of_def effectiveCdnUrl_def
      assetConfig_at_def loud_instance_def Let_def)


lemma clamp_value:
  "Math_max (Num 0) (Math_min (Num 100) (Math_floor (Num r))) = Num (of_int (max 0 (min 100 \<lfloor>r\<rfloor>)))"
  by (simp add: max_def min_def)

section \<open>The control surface\<close>

text \<open>
  C6. With an execution handle, \<open>setSuppressionLevel\<close> on a finite number posts exactly
  one message to that handle and changes nothing else; the value sent is the integer
  \<open>max 0 (min 100 \<lfloor>level\<rfloor>)\<close>, which lies in \<open>[0, 100]\<close>, is the floor of the level when
  the level is in range, 0 below the range and 100 above it.
\<close>

theorem setSuppressionLevel_sends_clamped_integer:
  assumes "workletNode this = Some h"
  shows "setSuppressionLevel (JNumber (Num r)) this w =
           (this, w\<lparr>posted := posted w @
              [(h, SET_SUPPRESSION_LEVEL (Num (of_int (max 0 (min 100 \<lfloor>r\<rfloor>)))))]\<rparr>)
         \<and> 0 \<le> max 0 (min 100 \<lfloor>r\<rfloor>) \<and> max 0 (min 100 \<lfloor>r\<rfloor>) \<le> 100
         \<and> (0 \<le> r \<and> r < 101 \<longrightarrow> max 0 (min 100 \<lfloor>r\<rfloor>) = \<lfloor>r\<rfloor>)
         \<and> (r < 0 \<longrightarrow> max 0 (min 100 \<lfloor>r\<rfloor>) = 0)
         \<and> (100 \<le> r \<longrightarrow> max 0 (min 100 \<lfloor>r\<rfloor>) = 100)"
proof -
  have "setSuppressionLevel (JNumber (Num r)) this w =
      (this, w\<lparr>posted := posted w @
         [(h, SET_SUPPRESSION_LEVEL (Num (of_int (max 0 (min 100 \<lfloor>r\<rfloor>)))))]\<rparr>)"
    using assms by (simp add: setSuppressionLevel_def postMessage_def clamp_value del: Math_max.simps Math_min.simps Math_floor.simps)
  moreover have "0 \<le> r \<and> r < 101 \<longrightarrow> max 0 (min 100 \<lfloor>r\<rfloor>) = \<lfloor>r\<rfloor>"
  proof
    assume a: "0 \<le> r \<and> r < 101"
    then have "0 \<le> \<lfloor>r\<rfloor>" by simp
    moreover from a have "\<lfloor>r\<rfloor> < 101" by (simp add: floor_less_iff)
    ultimately show "max 0 (min 100 \<lfloor>r\<rfloor>) = \<lfloor>r\<rfloor>" by simp
  qed
  moreover have "r < 0 \<longrightarrow> max 0 (min 100 \<lfloor>r\<rfloor>) = 0"
  proof
    assume "r < 0"
    then have "\<lfloor>r\<rfloor> < 0" by (simp add: floor_less_iff)
    then show "max 0 (min 100 \<lfloor>r\<rfloor>) = 0" by simp
  qed
  moreover have "100 \<le> r \<longrightarrow> max 0 (min 100 \<lfloor>r\<rfloor>) = 100"
  proof
    assume "100 \<le> r"
    then have "100 \<le> \<lfloor>r\<rfloor>" by (simp add: le_floor_iff)
    then show "max 0 (min 100 \<lfloor>r\<rfloor>) = 100" by simp
  qed
  ultimately show ?thesis by simp
qed

text \<open>The levels -5, 250 and 50.9 on a live instance: 0, 100 and 50 are sent.\<close>

theorem setSuppressionLevel_sends_clamped_integer_witness:
  "workletNode live_instance = Some 0
   \<and> setSuppressionLevel (JNumber (Num (- 5))) live_instance live_world =
       (live_instance, live_world\<lparr>posted := [(0, SET_SUPPRESSION_LEVEL (Num 0))]\<rparr>)
   \<and> setSuppressionLevel (JNumber (Num 250)) live_instance live_world =
       (live_instance, live_world\<lparr>posted := [(0, SET_SUPPRESSION_LEVEL (Num 100))]\<rparr>)
   \<and> setSuppressionLevel (JNumber (Num (509 / 10))) live_instance live_world =
       (live_instance, live_world\<lparr>posted := [(0, SET_SUPPRESSION_LEVEL (Num 50))]\<rparr>)"
proof -
  have h: "workletNode live_instance = Some 0" by (simp add: live_instance_def)
  have p: "posted live_world = []"
    by (simp add: live_world_def created_world_def settle_def create_begin_def
        initialize_begin_def preload_def initial_world_def Let_def constructor_def)
  show ?thesis
    using h p
      setSuppressionLevel_sends_clamped_integer [OF h, of "- 5" live_world]
      setSuppressionLevel_sends_clamped_integer [OF h, of 250 live_world]
      setSuppressionLevel_sends_clamped_integer [OF h, of "509 / 10" live_world]
    by simp
qed

text \<open>
  C8. With an execution handle, after \<open>setNoiseSuppressionEnabled(b)\<close> the query
  \<open>isNoiseSuppressionEnabled()\<close> returns \<open>b\<close>, the negation of the recorded bypass flag; the
  flag is recorded when the message is posted, whatever becomes of the message.
\<close>

theorem isNoiseSuppressionEnabled_after_set:
  assumes "workletNode this = Some h"
  shows "isNoiseSuppressionEnabled (fst (setNoiseSuppressionEnabled b this w)) = b
         \<and> bypassEnabled (fst (setNoiseSuppressionEnabled b this w)) = (\<not> b)
         \<and> posted (snd (setNoiseSuppressionEnabled b this w)) = posted w @ [(h, SET_BYPASS (\<not> b))]"
  using assms
  by (simp add: setNoiseSuppressionEnabled_def isNoiseSuppressionEnabled_def postMessage_def)

theorem isNoiseSuppressionEnabled_after_set_witness:
  "workletNode live_instance = Some 0
   \<and> isNoiseSuppressionEnabled (fst (setNoiseSuppressionEnabled False live_instance live_world)) = False
   \<and> isNoiseSuppressionEnabled (fst (setNoiseSuppressionEnabled True live_instance live_world)) = True"
proof -
  have h: "workletNode live_instance = Some 0" by (simp add: live_instance_def)
  show ?thesis
    using h isNoiseSuppressionEnabled_after_set [OF h, of False live_world]
      isNoiseSuppressionEnabled_after_set [OF h, of True live_world]
    by simp
qed


section \<open>The execution handle\<close>

text \<open>
  C4. \<open>createAudioWorkletNode\<close> throws the error "Processor not initialized. Use
  DeepFilterNet3Processor.create() to instantiate." on an instance that is not
  initialized, and the error "Assets not loaded" on an initialized instance without
  assets; in both cases no node is constructed: the instance and the world are as before.
\<close>

theorem createAudioWorkletNode_guards:
  "(\<not> isInitialized this \<longrightarrow>
      createAudioWorkletNode cwm ctx this w =
        (Inl (Error ''Processor not initialized. Use DeepFilterNet3Processor.create() to instantiate.''),
         this, w))
   \<and> (isInitialized this \<and> assets this = None \<longrightarrow>
      createAudioWorkletNode cwm ctx this w = (Inl (Error ''Assets not loaded''), this, w))"
  by (simp add: createAudioWorkletNode_def ensureInitialized_def NOT_INITIALIZED_def)

theorem createAudioWorkletNode_guards_witness:
  "\<not> isInitialized (constructor None)
   \<and> createAudioWorkletNode (\<lambda>_. None) 0 (constructor None) initial_world =
       (Inl (Error ''Processor not initialized. Use DeepFilterNet3Processor.create() to instantiate.''),
        constructor None, initial_world)
   \<and> isInitialized (live_instance\<lparr>assets := None\<rparr>) \<and> assets (live_instance\<lparr>assets := None\<rparr>) = None
   \<and> createAudioWorkletNode (\<lambda>_. None) 0 (live_instance\<lparr>assets := None\<rparr>) live_world =
       (Inl (Error ''Assets not loaded''), live_instance\<lparr>assets := None\<rparr>, live_world)"
proof -
  have a: "\<not> isInitialized (constructor None)" by (simp add: constructor_fields)
  have b: "isInitialized (live_instance\<lparr>assets := None\<rparr>) \<and> assets (live_instance\<lparr>assets := None\<rparr>) = None"
    by (simp add: live_instance_def)
  show ?thesis
    using a b
      createAudioWorkletNode_guards [of "constructor None" "\<lambda>_. None" 0 initial_world]
      createAudioWorkletNode_guards [of "live_instance\<lparr>assets := None\<rparr>" "\<lambda>_. None" 0 live_world]
    by simp
qed

text \<open>What a successful call of \<open>createAudioWorkletNode\<close> has done.\<close>

lemma createAudioWorkletNode_success:
  assumes "createAudioWorkletNode cwm ctx this w = (Inr h, this', w')"
  shows "\<exists>a. assets this = Some a \<and> isInitialized this \<and> h = length (nodes w)
    \<and> this' = this\<lparr>workletNode := Some h\<rparr>
    \<and> w' = w\<lparr>nodes := nodes w @
         [\<lparr>nodeContext = ctx, processorName = ''deepfilter-audio-processor'',
           processorOptions =
             \<lparr>opt_wasmModule = wasmModule a, opt_modelBytes = modelBytes a,
              suppressionLevel = noiseReductionLevel (config this)\<rparr>\<rparr>]\<rparr>"
proof (cases "isInitialized this")
  case False
  with assms show ?thesis
    by (simp add: createAudioWorkletNode_def ensureInitialized_def)
next
  case init: True
  show ?thesis
  proof (cases "assets this")
    case None
    with assms init show ?thesis
      by (simp add: createAudioWorkletNode_def ensureInitialized_def)
  next
    case (Some a)
    show ?thesis
    proof (cases "cwm ctx")
      case None
      with assms init Some show ?thesis
        by (simp add: createAudioWorkletNode_def ensureInitialized_def) blast
    next
      case (Some e)
      with assms init \<open>assets this = Some a\<close> show ?thesis
        by (simp add: createAudioWorkletNode_def ensureInitialized_def)
    qed
  qed
qed



text \<open>
  C7, amended. \<open>setSuppressionLevel\<close> changes nothing and posts nothing when there is no
  execution handle, when the level is not of type number, or when it is \<open>NaN\<close>; it returns
  normally on every input (the function has no error result).
\<close>

theorem setSuppressionLevel_ignores:
  assumes "workletNode this = None \<or> \<not> typeof_number level \<or> level = JNumber NaN"
  shows "setSuppressionLevel level this w = (this, w)"
  using assms by (auto simp add: setSuppressionLevel_def split: option.splits js_value.splits)

theorem setSuppressionLevel_ignores_witness:
  "setSuppressionLevel (JNumber (Num 10)) (constructor None) initial_world = (constructor None, initial_world)
   \<and> setSuppressionLevel (JString ''loud'') live_instance live_world = (live_instance, live_world)
   \<and> setSuppressionLevel (JNumber NaN) live_instance live_world = (live_instance, live_world)"
  using setSuppressionLevel_ignores [of "constructor None" "JNumber (Num 10)" initial_world]
    setSuppressionLevel_ignores [of live_instance "JString ''loud''" live_world]
    setSuppressionLevel_ignores [of live_instance "JNumber NaN" live_world]
  by (simp add: constructor_fields)

text \<open>
  C7 as stated fails for a level that is a number but not finite: on a live instance
  \<open>Infinity\<close> passes the guard (\<open>isNaN(Infinity)\<close> is false), is clamped to 100 and sent.
\<close>

theorem setSuppressionLevel_infinite_counterexample:
  "setSuppressionLevel (JNumber PosInfinity) live_instance live_world =
     (live_instance, live_world\<lparr>posted := [(0, SET_SUPPRESSION_LEVEL (Num 100))]\<rparr>)
   \<and> setSuppressionLevel (JNumber PosInfinity) live_instance live_world \<noteq> (live_instance, live_world)"
proof -
  have p: "posted live_world = []"
    by (simp add: live_world_def created_world_def settle_def create_begin_def
        initialize_begin_def preload_def initial_world_def Let_def constructor_def)
  have e: "setSuppressionLevel (JNumber PosInfinity) live_instance live_world =
     (live_instance, live_world\<lparr>posted := [(0, SET_SUPPRESSION_LEVEL (Num 100))]\<rparr>)"
    by (simp add: setSuppressionLevel_def live_instance_def postMessage_def p)
  have "posted (live_world\<lparr>posted := [(0, SET_SUPPRESSION_LEVEL (Num 100))]\<rparr>) \<noteq> posted live_world"
    by (simp add: p)
  then have "live_world\<lparr>posted := [(0, SET_SUPPRESSION_LEVEL (Num 100))]\<rparr> \<noteq> live_world"
    by metis
  with e show ?thesis by simp
qed

section \<open>Teardown\<close>

lemma destroy_initialized:
  assumes "isInitialized this"
  shows "destroy this w =
    (this\<lparr>workletNode := None, assets := None, isInitialized := False\<rparr>,
     w\<lparr>disconnected := disconnected w @ (case workletNode this of None \<Rightarrow> [] | Some h \<Rightarrow> [h])\<rparr>)"
  using assms by (simp add: destroy_def disconnect_def split: option.splits)

lemma destroy_uninitialized: "\<not> isInitialized this \<Longrightarrow> destroy this w = (this, w)"
  by (simp add: destroy_def)

lemma destroy_twice: "destroy (fst (destroy this w)) (snd (destroy this w)) = destroy this w"
  by (cases "isInitialized this") (simp_all add: destroy_initialized destroy_uninitialized)

lemma destroyed_has_no_handle:
  assumes "isInitialized this \<or> workletNode this = None"
  shows "workletNode (fst (destroy this w)) = None"
  using assms by (cases "isInitialized this") (simp_all add: destroy_initialized destroy_uninitialized)

text \<open>
  C5, amended. \<open>destroy()\<close> on an instance that is not initialized changes nothing. On an
  initialized instance it calls \<open>disconnect()\<close> on the execution handle if there is one,
  nulls the handle, clears the assets and resets the initialized flag: the instance then
  agrees with a freshly constructed instance of the same configuration in every field but
  the recorded bypass flag, which \<open>destroy()\<close> does not touch. A second \<open>destroy()\<close>
  changes nothing, and after \<open>destroy()\<close> the control operations \<open>setSuppressionLevel\<close> and
  \<open>setNoiseSuppressionEnabled\<close> change nothing and post nothing (on any instance that has a
  handle only while it is initialized, as every instance built through \<open>create\<close> has).
\<close>

theorem destroy_resets_lifecycle_fields:
  "(\<not> isInitialized this \<longrightarrow> destroy this w = (this, w))
   \<and> (isInitialized this \<longrightarrow>
        destroy this w =
          (this\<lparr>workletNode := None, assets := None, isInitialized := False\<rparr>,
           w\<lparr>disconnected := disconnected w @
                (case workletNode this of None \<Rightarrow> [] | Some h \<Rightarrow> [h])\<rparr>))
   \<and> (isInitialized this \<and> config this = config (constructor arg) \<longrightarrow>
        fst (destroy this w) = (constructor arg)\<lparr>bypassEnabled := bypassEnabled this\<rparr>)
   \<and> destroy (fst (destroy this w)) (snd (destroy this w)) = destroy this w
   \<and> (isInitialized this \<or> workletNode this = None \<longrightarrow>
        setSuppressionLevel level (fst (destroy this w)) (snd (destroy this w)) = destroy this w
        \<and> setNoiseSuppressionEnabled b (fst (destroy this w)) (snd (destroy this w)) = destroy this w
        \<and> \<not> isReady (fst (destroy this w)))"
proof -
  have fresh: "fst (destroy this w) = (constructor arg)\<lparr>bypassEnabled := bypassEnabled this\<rparr>"
    if "isInitialized this" "config this = config (constructor arg)"
    using that by (simp add: destroy_initialized constructor_def Let_def)
  have after: "setSuppressionLevel level (fst (destroy this w)) (snd (destroy this w)) = destroy this w
        \<and> setNoiseSuppressionEnabled b (fst (destroy this w)) (snd (destroy this w)) = destroy this w
        \<and> \<not> isReady (fst (destroy this w))"
    if "isInitialized this \<or> workletNode this = None"
    using destroyed_has_no_handle [OF that, of w]
    by (simp add: setSuppressionLevel_def setNoiseSuppressionEnabled_def isReady_def)
  from fresh after destroy_twice [of this w] destroy_initialized [of this w]
    destroy_uninitialized [of this w]
  show ?thesis by blast
qed

lemma live_world_logs: "posted live_world = []" "disconnected live_world = []"
  by (simp_all add: live_world_def created_world_def settle_def create_begin_def
      initialize_begin_def preload_def initial_world_def Let_def constructor_def)

lemma live_instance_is_fresh_but_live:
  "live_instance = (constructor None)\<lparr>assets := Some fixture_assets, workletNode := Some 0, isInitialized := True\<rparr>"
  by (simp add: live_instance_def constructor_def nullish_def empty_config_def)

theorem destroy_resets_lifecycle_fields_witness:
  "isInitialized live_instance \<and> config live_instance = config (constructor None)
   \<and> destroy live_instance live_world = (constructor None, live_world\<lparr>disconnected := [0]\<rparr>)
   \<and> \<not> isInitialized (constructor None)
   \<and> destroy (constructor None) initial_world = (constructor None, initial_world)
   \<and> setSuppressionLevel (JNumber (Num 10)) (fst (destroy live_instance live_world))
        (snd (destroy live_instance live_world)) = destroy live_instance live_world
   \<and> setNoiseSuppressionEnabled False (fst (destroy live_instance live_world))
        (snd (destroy live_instance live_world)) = destroy live_instance live_world"
proof -
  have a: "isInitialized live_instance" and b: "config live_instance = config (constructor None)"
    and c: "\<not> isInitialized (constructor None)"
    by (simp_all add: live_instance_is_fresh_but_live constructor_fields)
  note t = destroy_resets_lifecycle_fields [of live_instance live_world None "JNumber (Num 10)" False]
  note u = destroy_resets_lifecycle_fields [of "constructor None" initial_world None "JNumber (Num 10)" False]
  from t a have 1: "destroy live_instance live_world =
          (live_instance\<lparr>workletNode := None, assets := None, isInitialized := False\<rparr>,
           live_world\<lparr>disconnected := disconnected live_world @
                (case workletNode live_instance of None \<Rightarrow> [] | Some h \<Rightarrow> [h])\<rparr>)"
    by blast
  have 2: "live_instance\<lparr>workletNode := None, assets := None, isInitialized := False\<rparr> = constructor None"
    by (simp add: live_instance_def constructor_def nullish_def empty_config_def)
  have 3: "workletNode live_instance = Some 0" by (simp add: live_instance_def)
  from 1 2 3 have 4: "destroy live_instance live_world = (constructor None, live_world\<lparr>disconnected := [0]\<rparr>)"
    by (simp add: live_world_logs)
  from u c have 5: "destroy (constructor None) initial_world = (constructor None, initial_world)"
    by blast
  from t a have 6: "setSuppressionLevel (JNumber (Num 10)) (fst (destroy live_instance live_world))
        (snd (destroy live_instance live_world)) = destroy live_instance live_world
      \<and> setNoiseSuppressionEnabled False (fst (destroy live_instance live_world))
        (snd (destroy live_instance live_world)) = destroy live_instance live_world"
    by blast
  from a b c 4 5 6 show ?thesis by blast
qed

text \<open>
  C5 as stated fails in the bypass flag: a live instance on which
  \<open>setNoiseSuppressionEnabled(false)\<close> was called is, after \<open>destroy()\<close>, not in the state
  of a freshly constructed instance of its configuration: \<open>isNoiseSuppressionEnabled()\<close>
  answers false on it and true on the fresh one.
\<close>

theorem destroy_keeps_bypass_counterexample:
  "fst (destroy (fst (setNoiseSuppressionEnabled False live_instance live_world))
          (snd (setNoiseSuppressionEnabled False live_instance live_world)))
     \<noteq> constructor (Some (config live_instance))
   \<and> \<not> isNoiseSuppressionEnabled
        (fst (destroy (fst (setNoiseSuppressionEnabled False live_instance live_world))
               (snd (setNoiseSuppressionEnabled False live_instance live_world))))
   \<and> isNoiseSuppressionEnabled (constructor (Some (config live_instance)))"
proof -
  have s: "fst (setNoiseSuppressionEnabled False live_instance live_world) =
      live_instance\<lparr>bypassEnabled := True\<rparr>"
    by (simp add: setNoiseSuppressionEnabled_def live_instance_def)
  have d: "bypassEnabled (fst (destroy (live_instance\<lparr>bypassEnabled := True\<rparr>) x))" for x
    by (simp add: destroy_def live_instance_def)
  have f: "\<not> bypassEnabled (constructor (Some (config live_instance)))"
    by (simp add: constructor_fields)
  from d f have "fst (destroy (live_instance\<lparr>bypassEnabled := True\<rparr>) x) \<noteq> constructor (Some (config live_instance))" for x
    by metis
  with s d f show ?thesis
    by (simp add: isNoiseSuppressionEnabled_def)
qed

section \<open>Creation\<close>

text \<open>
  C3, amended. \<open>create\<close> constructs an instance and awaits a promise of \<open>preload\<close>. When
  that promise is fulfilled, \<open>create\<close> resolves to the instance with the assets stored and
  the initialized flag set; it has no execution handle yet, so \<open>isReady()\<close> is false on it,
  and becomes true once \<open>createAudioWorkletNode\<close> has succeeded. When the promise is
  rejected, \<open>create\<close> rejects with the same error and returns no instance.
\<close>

theorem create_outcome:
  "fst (fst (create_begin g arg w)) = constructor arg
   \<and> (\<exists>q. snd (fst (create_begin g arg w)) = Some q)
   \<and> (snd (fst (create_begin g arg w)) = Some pid \<and> promise_state_of w2 pid = Fulfilled a \<longrightarrow>
        create_end (fst (create_begin g arg w)) w2 =
          Some (Inr ((constructor arg)\<lparr>assets := Some a, isInitialized := True\<rparr>)))
   \<and> (snd (fst (create_begin g arg w)) = Some pid \<and> promise_state_of w2 pid = Rejected e \<longrightarrow>
        create_end (fst (create_begin g arg w)) w2 = Some (Inl e))
   \<and> (create_end (fst (create_begin g arg w)) w2 = Some (Inr p) \<longrightarrow>
        isInitialized p \<and> assets p \<noteq> None \<and> workletNode p = None \<and> \<not> isReady p
        \<and> (createAudioWorkletNode cwm ctx p w3 = (Inr h, p', w4) \<longrightarrow> isReady p'))"
proof -
  obtain q where q: "fst (issue g (Create arg) w) = Some q"
    using issue_returns_promise by blast
  have pa: "fst (create_begin g arg w) = (constructor arg, Some q)"
    by (simp add: create_begin_eq q del: issue.simps)
  have ok: "create_end (fst (create_begin g arg w)) w2 =
          Some (Inr ((constructor arg)\<lparr>assets := Some a, isInitialized := True\<rparr>))"
    if "snd (fst (create_begin g arg w)) = Some pid" "promise_state_of w2 pid = Fulfilled a"
    using that by (simp add: pa create_end_def initialize_end_def)
  have bad: "create_end (fst (create_begin g arg w)) w2 = Some (Inl e)"
    if "snd (fst (create_begin g arg w)) = Some pid" "promise_state_of w2 pid = Rejected e"
    using that by (simp add: pa create_end_def initialize_end_def)
  have inst: "isInitialized p \<and> assets p \<noteq> None \<and> workletNode p = None \<and> \<not> isReady p
        \<and> (createAudioWorkletNode cwm ctx p w3 = (Inr h, p', w4) \<longrightarrow> isReady p')"
    if r: "create_end (fst (create_begin g arg w)) w2 = Some (Inr p)"
  proof -
    from r obtain a' where p: "p = (constructor arg)\<lparr>assets := Some a', isInitialized := True\<rparr>"
      by (auto simp add: pa create_end_def initialize_end_def split: promise_state.splits)
    have "isReady p'" if c: "createAudioWorkletNode cwm ctx p w3 = (Inr h, p', w4)"
      using createAudioWorkletNode_success [OF c] by (auto simp add: isReady_def)
    with p show ?thesis
      by (simp add: constructor_fields isReady_def)
  qed
  from pa ok bad inst show ?thesis by auto
qed

lemma create_begin_fresh:
  "create_begin fixture_getAssetUrls None initial_world =
     ((constructor None, Some 0),
      initial_world\<lparr>preloadPromise := Some 0, promises := [Pending],
        fetchCalls := [DEFAULT_CDN_URL @ ''/df.wasm'', DEFAULT_CDN_URL @ ''/model.bin'']\<rparr>)"
  by (simp add: create_begin_def initialize_begin_def preload_def Let_def constructor_fields
      initial_world_def fixture_getAssetUrls_def effectiveCdnUrl_def nullish_def empty_config_def
      assetConfig_at_def)

lemma created_world_promise: "promise_state_of created_world 0 = Fulfilled fixture_assets"
  by (simp add: created_world_def create_begin_fresh settle_def promise_state_of_def)

theorem create_outcome_witness:
  "snd (fst (create_begin fixture_getAssetUrls None initial_world)) = Some 0
   \<and> promise_state_of created_world 0 = Fulfilled fixture_assets
   \<and> create_end (fst (create_begin fixture_getAssetUrls None initial_world)) created_world =
        Some (Inr (live_instance\<lparr>workletNode := None\<rparr>))
   \<and> promise_state_of
        (settle 0 (Inl (Error ''404'')) (snd (create_begin fixture_getAssetUrls None initial_world))) 0 =
        Rejected (Error ''404'')
   \<and> create_end (fst (create_begin fixture_getAssetUrls None initial_world))
        (settle 0 (Inl (Error ''404'')) (snd (create_begin fixture_getAssetUrls None initial_world))) =
        Some (Inl (Error ''404''))
   \<and> createAudioWorkletNode (\<lambda>_. None) 0 (live_instance\<lparr>workletNode := None\<rparr>) created_world =
        (Inr 0, live_instance, live_world)
   \<and> isReady live_instance"
proof -
  let ?w = "settle 0 (Inl (Error ''404'')) (snd (create_begin fixture_getAssetUrls None initial_world))"
  have a: "snd (fst (create_begin fixture_getAssetUrls None initial_world)) = Some 0"
    by (simp add: create_begin_fresh)
  have r: "promise_state_of ?w 0 = Rejected (Error ''404'')"
    by (simp add: create_begin_fresh settle_def promise_state_of_def)
  have l: "(constructor None)\<lparr>assets := Some fixture_assets, isInitialized := True\<rparr> =
      live_instance\<lparr>workletNode := None\<rparr>"
    by (simp add: live_instance_def constructor_def nullish_def empty_config_def)
  note t = create_outcome [of fixture_getAssetUrls None initial_world 0 created_world fixture_assets
      "Error ''404''" "live_instance\<lparr>workletNode := None\<rparr>" "\<lambda>_. None" 0 created_world 0
      live_instance live_world]
  note u = create_outcome [of fixture_getAssetUrls None initial_world 0 ?w fixture_assets
      "Error ''404''" "live_instance\<lparr>workletNode := None\<rparr>" "\<lambda>_. None" 0 created_world 0
      live_instance live_world]
  from t a created_world_promise
  have 1: "create_end (fst (create_begin fixture_getAssetUrls None initial_world)) created_world =
        Some (Inr ((constructor None)\<lparr>assets := Some fixture_assets, isInitialized := True\<rparr>))"
    by blast
  from u a r
  have 2: "create_end (fst (create_begin fixture_getAssetUrls None initial_world)) ?w =
        Some (Inl (Error ''404''))"
    by blast
  from 1 l have 3: "create_end (fst (create_begin fixture_getAssetUrls None initial_world)) created_world =
        Some (Inr (live_instance\<lparr>workletNode := None\<rparr>))"
    by simp
  from t 3 live_instance_handle have 4: "isReady live_instance"
    by blast
  from a created_world_promise 3 r 2 live_instance_handle 4 show ?thesis
    by blast
qed

text \<open>
  C3 as stated fails in its first half: \<open>create()\<close> in a fresh process, the acquisition
  succeeding, resolves to an instance on which \<open>isReady()\<close> is false.
\<close>

theorem create_not_ready_counterexample:
  "create_end (fst (create_begin fixture_getAssetUrls None initial_world))
     (settle 0 (Inr fixture_assets) (snd (create_begin fixture_getAssetUrls None initial_world))) =
     Some (Inr (live_instance\<lparr>workletNode := None\<rparr>))
   \<and> \<not> isReady (live_instance\<lparr>workletNode := None\<rparr>)"
proof -
  have "\<not> isReady (live_instance\<lparr>workletNode := None\<rparr>)"
    by (simp add: isReady_def)
  with live_instance_created show ?thesis
    by (simp add: created_instance_def created_world_def)
qed

section \<open>The stored acquisition\<close>

text \<open>
  How the asynchronous body of \<open>preload\<close> ends: rejected when a fetch or the compilation
  fails, fulfilled with the compiled module and the model bytes otherwise.
\<close>

lemma acquire_body_outcomes:
  "acquire_body compile first (Inl e) (Inr m) = Inl e"
  "acquire_body compile first (Inr b) (Inl e) = Inl e"
  "acquire_body compile first (Inl e1) (Inl e2) = Inl (if first then e2 else e1)"
  "compile b = Inl e \<Longrightarrow> acquire_body compile first (Inr b) (Inr m) = Inl e"
  "compile b = Inr mo \<Longrightarrow>
     acquire_body compile first (Inr b) (Inr m) = Inr \<lparr>wasmModule = mo, modelBytes = m\<rparr>"
  by (simp_all add: acquire_body_def Promise_all_def)

lemmas run_simps =
  create_begin_def initialize_begin_def preload_def Let_def constructor_fields
  fixture_getAssetUrls_def effectiveCdnUrl_def nullish_def empty_config_def config_with_def
  DEFAULT_CDN_URL_def request_location_def stored_location_def assetConfig_at_def
  new_AssetConfig_def set_cdnUrl_def settle_def initial_world_def

text \<open>
  The stored configuration is the caller's object. After a \<open>preload\<close> with an object that
  reads location a, the caller assigns location b to that object: a request for a (with
  another object) now misses and fetches a's assets again, and a request for b gets the
  promise of the acquisition that was started for a.
\<close>

lemma stored_configuration_is_aliased:
  "run fixture_getAssetUrls
     [Alloc \<lparr>cdnUrl = Some ''https://a.example''\<rparr>,
      Call (Preload (Some (config_with 0))),
      SetCdnUrl 0 (Some ''https://b.example''),
      Alloc \<lparr>cdnUrl = Some ''https://a.example''\<rparr>,
      Call (Preload (Some (config_with 1)))] initial_world =
     ([Some 0, Some 1],
      \<lparr>preloadPromise = Some 1, preloadConfig = Some 1,
       assetConfigs = [\<lparr>cdnUrl = Some ''https://b.example''\<rparr>, \<lparr>cdnUrl = Some ''https://a.example''\<rparr>],
       promises = [Pending, Pending],
       fetchCalls = [''https://a.example/df.wasm'', ''https://a.example/model.bin'',
                     ''https://a.example/df.wasm'', ''https://a.example/model.bin''],
       nodes = [], posted = [], disconnected = []\<rparr>)"
  "run fixture_getAssetUrls
     [Alloc \<lparr>cdnUrl = Some ''https://a.example''\<rparr>,
      Call (Preload (Some (config_with 0))),
      SetCdnUrl 0 (Some ''https://b.example''),
      Alloc \<lparr>cdnUrl = Some ''https://b.example''\<rparr>,
      Call (Preload (Some (config_with 1)))] initial_world =
     ([Some 0, Some 0],
      \<lparr>preloadPromise = Some 0, preloadConfig = Some 0,
       assetConfigs = [\<lparr>cdnUrl = Some ''https://b.example''\<rparr>, \<lparr>cdnUrl = Some ''https://b.example''\<rparr>],
       promises = [Pending],
       fetchCalls = [''https://a.example/df.wasm'', ''https://a.example/model.bin''],
       nodes = [], posted = [], disconnected = []\<rparr>)"
  by (simp_all add: run_simps)


text \<open>
  The world in which the request for b below is made: two configuration objects, for the
  locations a and b, and one \<open>preload\<close> for a.
\<close>

lemma after_request_a:
  "run fixture_getAssetUrls
     [Alloc \<lparr>cdnUrl = Some ''https://a.example''\<rparr>, Alloc \<lparr>cdnUrl = Some ''https://b.example''\<rparr>,
      Call (Preload (Some (config_with 0)))] initial_world =
     ([Some 0],
      \<lparr>preloadPromise = Some 0, preloadConfig = Some 0,
       assetConfigs = [\<lparr>cdnUrl = Some ''https://a.example''\<rparr>, \<lparr>cdnUrl = Some ''https://b.example''\<rparr>],
       promises = [Pending],
       fetchCalls = [''https://a.example/df.wasm'', ''https://a.example/model.bin''],
       nodes = [], posted = [], disconnected = []\<rparr>)"
  by (simp add: run_simps)



text \<open>
  C2, amended. A call of \<open>preload\<close> or \<open>create\<close>, followed by any events among which every
  call of either is for the first call's effective base location and after each of which
  the stored configuration object still reads as that location (the caller may create
  objects and write to others, and promises may settle): every one of the later calls
  gets the promise of the first and starts no fetch, so the assets are fetched at most
  once each (exactly the two fetches of the first call when it started the acquisition,
  none when it joined the stored one); and a \<open>create\<close> for that location made then resolves
  to an instance holding the very assets that promise is fulfilled with.
\<close>

theorem single_flight_while_location_is_stored:
  assumes "stays_at g (request_location w r0) es (snd (issue g r0 w))"
  shows "fst (run g es (snd (issue g r0 w))) = map (\<lambda>_. fst (issue g r0 w)) (calls es)
     \<and> fetchCalls (snd (run g es (snd (issue g r0 w)))) =
         fetchCalls w @
           (if preloadPromise w \<noteq> None \<and> request_location w r0 = stored_location w
            then []
            else [wasm (g (assetConfig_at w (request_assetConfig r0))),
                  model (g (assetConfig_at w (request_assetConfig r0)))])
     \<and> (fst (issue g r0 w) = Some pid
          \<and> request_location (snd (run g es (snd (issue g r0 w)))) (Create arg) = request_location w r0
          \<and> promise_state_of w2 pid = Fulfilled a \<longrightarrow>
          create_end (fst (create_begin g arg (snd (run g es (snd (issue g r0 w)))))) w2 =
            Some (Inr ((constructor arg)\<lparr>assets := Some a, isInitialized := True\<rparr>)))"
proof -
  let ?w1 = "snd (issue g r0 w)"
  let ?w2 = "snd (run g es ?w1)"
  obtain p where p: "fst (issue g r0 w) = Some p"
    using issue_returns_promise by blast
  have stored: "preloadPromise ?w1 = Some p"
    by (simp add: issue_stores p del: issue.simps)
  have loc: "stored_location ?w1 = request_location w r0"
    by (simp add: issue_stores del: issue.simps)
  note rs = run_stays [OF stored loc assms]
  from rs have all: "fst (run g es ?w1) = map (\<lambda>_. fst (issue g r0 w)) (calls es)"
    by (simp add: p del: issue.simps)
  have first: "fetchCalls ?w1 =
         fetchCalls w @
           (if preloadPromise w \<noteq> None \<and> request_location w r0 = stored_location w
            then []
            else [wasm (g (assetConfig_at w (request_assetConfig r0))),
                  model (g (assetConfig_at w (request_assetConfig r0)))])"
  proof (cases rule: issue_cases [of w r0])
    case (hit q)
    then show ?thesis by (simp add: issue_hit del: issue.simps)
  next
    case miss
    from issue_miss [OF miss, of g] miss show ?thesis by (auto simp del: issue.simps)
  qed
  with rs have fetches: "fetchCalls ?w2 =
         fetchCalls w @
           (if preloadPromise w \<noteq> None \<and> request_location w r0 = stored_location w
            then []
            else [wasm (g (assetConfig_at w (request_assetConfig r0))),
                  model (g (assetConfig_at w (request_assetConfig r0)))])"
    by simp
  have creates: "create_end (fst (create_begin g arg ?w2)) w2 =
            Some (Inr ((constructor arg)\<lparr>assets := Some a, isInitialized := True\<rparr>))"
    if "fst (issue g r0 w) = Some pid" "request_location ?w2 (Create arg) = request_location w r0"
      "promise_state_of w2 pid = Fulfilled a"
  proof -
    from rs have sp: "preloadPromise ?w2 = Some p" by blast
    from rs that(2) have "request_location ?w2 (Create arg) = stored_location ?w2"
      by simp
    from issue_hit [OF sp this, of g]
    have "fst (create_begin g arg ?w2) = (constructor arg, Some p)"
      by (simp add: create_begin_eq del: issue.simps)
    with that(1,3) p show ?thesis
      by (simp add: create_end_def initialize_end_def del: issue.simps)
  qed
  from all fetches creates show ?thesis by blast
qed

theorem single_flight_while_location_is_stored_witness:
  "stays_at fixture_getAssetUrls
     (request_location (new_AssetConfig \<lparr>cdnUrl = Some ''https://a.example''\<rparr> initial_world)
        (Preload (Some (config_with 0))))
     [Alloc \<lparr>cdnUrl = Some ''https://a.example''\<rparr>, Call (Create (Some (config_with 1))),
      SetCdnUrl 1 (Some ''https://b.example''), Settle 0 (Inr fixture_assets),
      Call (Preload (Some (config_with 0)))]
     (snd (issue fixture_getAssetUrls (Preload (Some (config_with 0)))
        (new_AssetConfig \<lparr>cdnUrl = Some ''https://a.example''\<rparr> initial_world)))
   \<and> run fixture_getAssetUrls
     [Alloc \<lparr>cdnUrl = Some ''https://a.example''\<rparr>, Call (Create (Some (config_with 1))),
      SetCdnUrl 1 (Some ''https://b.example''), Settle 0 (Inr fixture_assets),
      Call (Preload (Some (config_with 0)))]
     (snd (issue fixture_getAssetUrls (Preload (Some (config_with 0)))
        (new_AssetConfig \<lparr>cdnUrl = Some ''https://a.example''\<rparr> initial_world))) =
     ([Some 0, Some 0],
      \<lparr>preloadPromise = Some 0, preloadConfig = Some 0,
       assetConfigs = [\<lparr>cdnUrl = Some ''https://a.example''\<rparr>, \<lparr>cdnUrl = Some ''https://b.example''\<rparr>],
       promises = [Fulfilled fixture_assets],
       fetchCalls = [''https://a.example/df.wasm'', ''https://a.example/model.bin''],
       nodes = [], posted = [], disconnected = []\<rparr>)
   \<and> create_end
        (fst (create_begin fixture_getAssetUrls (Some (config_with 0))
           \<lparr>preloadPromise = Some 0, preloadConfig = Some 0,
            assetConfigs = [\<lparr>cdnUrl = Some ''https://a.example''\<rparr>, \<lparr>cdnUrl = Some ''https://b.example''\<rparr>],
            promises = [Fulfilled fixture_assets],
            fetchCalls = [''https://a.example/df.wasm'', ''https://a.example/model.bin''],
            nodes = [], posted = [], disconnected = []\<rparr>))
        \<lparr>preloadPromise = Some 0, preloadConfig = Some 0,
         assetConfigs = [\<lparr>cdnUrl = Some ''https://a.example''\<rparr>, \<lparr>cdnUrl = Some ''https://b.example''\<rparr>],
         promises = [Fulfilled fixture_assets],
         fetchCalls = [''https://a.example/df.wasm'', ''https://a.example/model.bin''],
         nodes = [], posted = [], disconnected = []\<rparr> =
      Some (Inr ((constructor (Some (config_with 0)))\<lparr>assets := Some fixture_assets, isInitialized := True\<rparr>))"
proof -
  let ?w = "new_AssetConfig \<lparr>cdnUrl = Some ''https://a.example''\<rparr> initial_world"
  let ?r0 = "Preload (Some (config_with 0))"
  let ?es = "[Alloc \<lparr>cdnUrl = Some ''https://a.example''\<rparr>, Call (Create (Some (config_with 1))),
      SetCdnUrl 1 (Some ''https://b.example''), Settle 0 (Inr fixture_assets),
      Call (Preload (Some (config_with 0)))]"
  let ?w2 = "\<lparr>preloadPromise = Some 0, preloadConfig = Some 0,
       assetConfigs = [\<lparr>cdnUrl = Some ''https://a.example''\<rparr>, \<lparr>cdnUrl = Some ''https://b.example''\<rparr>],
       promises = [Fulfilled fixture_assets],
       fetchCalls = [''https://a.example/df.wasm'', ''https://a.example/model.bin''],
       nodes = [], posted = [], disconnected = []\<rparr>"
  have s: "stays_at fixture_getAssetUrls (request_location ?w ?r0) ?es
      (snd (issue fixture_getAssetUrls ?r0 ?w))"
    by (simp add: run_simps)
  note t = single_flight_while_location_is_stored [OF s, where pid = 0
      and arg = "Some (config_with 0)" and ?w2.0 = ?w2 and a = fixture_assets]
  have i: "fst (issue fixture_getAssetUrls ?r0 ?w) = Some 0"
    by (simp add: run_simps)
  have sn: "snd (run fixture_getAssetUrls ?es (snd (issue fixture_getAssetUrls ?r0 ?w))) = ?w2"
    by (simp add: run_simps)
  from t have "fst (run fixture_getAssetUrls ?es (snd (issue fixture_getAssetUrls ?r0 ?w))) =
      map (\<lambda>_. fst (issue fixture_getAssetUrls ?r0 ?w)) (calls ?es)"
    by blast
  then have "fst (run fixture_getAssetUrls ?es (snd (issue fixture_getAssetUrls ?r0 ?w))) =
      [Some 0, Some 0]"
    unfolding i by simp
  with sn have 1: "run fixture_getAssetUrls ?es (snd (issue fixture_getAssetUrls ?r0 ?w)) =
      ([Some 0, Some 0], ?w2)"
    by (simp add: prod_eq_iff del: run.simps issue.simps)
  have l: "request_location ?w2 (Create (Some (config_with 0))) = request_location ?w ?r0"
    by (simp add: run_simps)
  have f: "promise_state_of ?w2 0 = Fulfilled fixture_assets"
    by (simp add: promise_state_of_def)
  from t i l f have 2: "create_end (fst (create_begin fixture_getAssetUrls (Some (config_with 0)) ?w2)) ?w2 =
      Some (Inr ((constructor (Some (config_with 0)))\<lparr>assets := Some fixture_assets, isInitialized := True\<rparr>))"
    unfolding sn by blast
  from s 1 2 show ?thesis by blast
qed

text \<open>
  C2 as stated fails for two calls with a call for another location between them:
  \<open>create\<close> for a, \<open>preload\<close> for b, \<open>preload\<close> for a give three different promises, and a's
  two assets are fetched twice.
\<close>

theorem refetch_after_other_location_counterexample:
  "request_location
     (snd (run fixture_getAssetUrls
        [Alloc \<lparr>cdnUrl = Some ''https://a.example''\<rparr>, Alloc \<lparr>cdnUrl = Some ''https://b.example''\<rparr>]
        initial_world))
     (Create (Some (config_with 0))) =
   request_location
     (snd (run fixture_getAssetUrls
        [Alloc \<lparr>cdnUrl = Some ''https://a.example''\<rparr>, Alloc \<lparr>cdnUrl = Some ''https://b.example''\<rparr>]
        initial_world))
     (Preload (Some (config_with 0)))
   \<and> run fixture_getAssetUrls
        [Alloc \<lparr>cdnUrl = Some ''https://a.example''\<rparr>, Alloc \<lparr>cdnUrl = Some ''https://b.example''\<rparr>,
         Call (Create (Some (config_with 0))),
         Call (Preload (Some (config_with 1))),
         Call (Preload (Some (config_with 0)))] initial_world =
      ([Some 0, Some 1, Some 2],
       \<lparr>preloadPromise = Some 2, preloadConfig = Some 0,
        assetConfigs = [\<lparr>cdnUrl = Some ''https://a.example''\<rparr>, \<lparr>cdnUrl = Some ''https://b.example''\<rparr>],
        promises = [Pending, Pending, Pending],
        fetchCalls = [''https://a.example/df.wasm'', ''https://a.example/model.bin'',
                      ''https://b.example/df.wasm'', ''https://b.example/model.bin'',
                      ''https://a.example/df.wasm'', ''https://a.example/model.bin''],
        nodes = [], posted = [], disconnected = []\<rparr>)"
  by (simp add: run_simps)





end
